theory Spec2Isabelle
  imports Complex_Main
begin

section \<open>Double-precision values\<close>

text \<open>
  The program computes with C++ \<^verbatim>\<open>double\<close>. A value is either a finite number or one of
  the three special values of IEEE 754. Finite values are computed exactly (rounding,
  overflow, underflow and the sign of zero are not modelled); the special values follow the
  IEEE rules, so that a division by zero is visible in the model as an infinity or a NaN
  instead of being hidden by the total division of HOL. Every zero divisor that the program
  can produce is a product of a number with itself or a sum of values of \<^verbatim>\<open>exp\<close>, hence
  positive zero; division by a zero is modelled accordingly.
\<close>

datatype double = Finite real | PosInf | NegInf | NaN



fun dadd :: "double \<Rightarrow> double \<Rightarrow> double" where
  "dadd (Finite a) (Finite b) = Finite (a + b)"
| "dadd (Finite a) PosInf = PosInf"
| "dadd (Finite a) NegInf = NegInf"
| "dadd PosInf (Finite b) = PosInf"
| "dadd PosInf PosInf = PosInf"
| "dadd PosInf NegInf = NaN"
| "dadd NegInf (Finite b) = NegInf"
| "dadd NegInf PosInf = NaN"
| "dadd NegInf NegInf = NegInf"
| "dadd NaN y = NaN"
| "dadd x NaN = NaN"


fun dmul :: "double \<Rightarrow> double \<Rightarrow> double" where
  "dmul (Finite a) (Finite b) = Finite (a * b)"
| "dmul (Finite a) PosInf = (if a = 0 then NaN else if 0 < a then PosInf else NegInf)"
| "dmul (Finite a) NegInf = (if a = 0 then NaN else if 0 < a then NegInf else PosInf)"
| "dmul PosInf (Finite b) = (if b = 0 then NaN else if 0 < b then PosInf else NegInf)"
| "dmul NegInf (Finite b) = (if b = 0 then NaN else if 0 < b then NegInf else PosInf)"
| "dmul PosInf PosInf = PosInf"
| "dmul PosInf NegInf = NegInf"
| "dmul NegInf PosInf = NegInf"
| "dmul NegInf NegInf = PosInf"
| "dmul NaN y = NaN"
| "dmul x NaN = NaN"




text \<open>\<^verbatim>\<open>atan2(y,1.0)\<close>: the angle of the slope \<open>y\<close> with the x-axis.\<close>

fun datan2_1 :: "double \<Rightarrow> double" where
  "datan2_1 (Finite a) = Finite (arctan a)"
| "datan2_1 PosInf = Finite (pi / 2)"
| "datan2_1 NegInf = Finite (- pi / 2)"
| "datan2_1 NaN = NaN"

text \<open>The comparisons \<^verbatim>\<open>==\<close> and \<^verbatim>\<open>>\<close> of doubles: false as soon as one side is a NaN.\<close>

fun deq :: "double \<Rightarrow> double \<Rightarrow> bool" where
  "deq (Finite a) (Finite b) = (a = b)"
| "deq PosInf PosInf = True"
| "deq NegInf NegInf = True"
| "deq x y = False"


text \<open>The sum of the coefficients of a vector (Eigen's \<^verbatim>\<open>sum()\<close>; zero when empty).\<close>

definition dsum :: "double list \<Rightarrow> double" where
  "dsum xs = foldl dadd (Finite 0) xs"

section \<open>Eigen vectors and matrices\<close>

text \<open>
  A \<^verbatim>\<open>VectorXd\<close> is the list of its coefficients. A \<^verbatim>\<open>MatrixXd\<close> is its number of rows and
  the list of its columns (Eigen stores matrices by column); a matrix can have rows and no
  column, or columns and no row. The default-constructed matrix is 0 x 0.
  The program is compiled with the assertions off (\<^verbatim>\<open>checkDimensions\<close> only compiles under
  \<^verbatim>\<open>NDEBUG\<close>), so that Eigen checks no index and no shape: a read or a write out of range
  has no defined behaviour in the source. The model leaves such reads unspecified
  (\<open>xs ! i\<close>), and the theorems carry the shapes that keep every access in range.
\<close>

record matrix =
  rows :: nat
  columns :: "double list list"

definition cols :: "matrix \<Rightarrow> nat" where
  "cols M = length (columns M)"

definition wf_matrix :: "matrix \<Rightarrow> bool" where
  "wf_matrix M = list_all (\<lambda>c. length c = rows M) (columns M)"

definition empty_matrix :: matrix where
  "empty_matrix = \<lparr>rows = 0, columns = []\<rparr>"

text \<open>\<^verbatim>\<open>M(i,j)\<close>, \<^verbatim>\<open>M.col(j)\<close>, \<^verbatim>\<open>M.row(i)\<close> and the assignment \<^verbatim>\<open>M.col(j) = v\<close>.\<close>

definition coeff :: "matrix \<Rightarrow> nat \<Rightarrow> nat \<Rightarrow> double" where
  "coeff M i j = columns M ! j ! i"

definition col :: "matrix \<Rightarrow> nat \<Rightarrow> double list" where
  "col M j = columns M ! j"

definition row :: "matrix \<Rightarrow> nat \<Rightarrow> double list" where
  "row M i = map (\<lambda>j. coeff M i j) [0..<cols M]"

definition set_col :: "matrix \<Rightarrow> nat \<Rightarrow> double list \<Rightarrow> matrix" where
  "set_col M j v = M\<lparr>columns := (columns M)[j := v]\<rparr>"


text \<open>
  \<^verbatim>\<open>resize\<close> allocates without initialising: the coefficients are whatever the memory
  holds, here the values \<open>junk k\<close> of an arbitrary function of the storage index.
\<close>

definition resize_vector :: "(nat \<Rightarrow> double) \<Rightarrow> nat \<Rightarrow> double list" where
  "resize_vector junk n = map junk [0..<n]"


text \<open>\<^verbatim>\<open>v.segment(offset,n)\<close> read, and written by \<^verbatim>\<open>v.segment(offset,n) = w\<close>.\<close>

definition segment :: "'a list \<Rightarrow> nat \<Rightarrow> nat \<Rightarrow> 'a list" where
  "segment v off n = take n (drop off v)"

definition set_segment :: "'a list \<Rightarrow> nat \<Rightarrow> nat \<Rightarrow> 'a list \<Rightarrow> 'a list" where
  "set_segment v off n w = take off v @ take n w @ drop (off + n) v"

text \<open>
  \<^verbatim>\<open>(a.array() == b.array()).all()\<close> on two vectors, and on two matrices of the same shape.
\<close>

definition all_equal :: "double list \<Rightarrow> double list \<Rightarrow> bool" where
  "all_equal v w = list_all (\<lambda>i. deq (v ! i) (w ! i)) [0..<length v]"






text \<open>The product of a row vector with a transposed row vector: a scalar.\<close>

definition dot :: "double list \<Rightarrow> double list \<Rightarrow> double" where
  "dot v w = dsum (map (\<lambda>k. dmul (v ! k) (w ! k)) [0..<length v])"



text \<open>
  \<^verbatim>\<open>VectorXd::Ones(rows,cols)\<close>: a vector type has one column at compile time, and with the
  assertions off the second argument is not looked at.
\<close>

definition VectorXd_Ones :: "nat \<Rightarrow> nat \<Rightarrow> double list" where
  "VectorXd_Ones r c = replicate r (Finite 1)"

definition MatrixXd_Zero :: "nat \<Rightarrow> nat \<Rightarrow> matrix" where
  "MatrixXd_Zero r c = \<lparr>rows = r, columns = replicate c (replicate r (Finite 0))\<rparr>"

section \<open>ModelParametersUnified\<close>

text \<open>
  The members of the class. The standard error stream is not part of the object: the
  operations that write to it return the lines they wrote beside the new object.
  Isabelle names cannot end with an underscore, so the members lose theirs.
\<close>

record ModelParametersUnified =
  centers :: matrix
  widths :: matrix
  slopes :: matrix
  offsets :: "double list"
  priors :: "double list"
  normalized_basis_functions :: bool
  lines_pivot_at_max_activation :: bool
  slopes_as_angles :: bool
  all_values_vector_size :: nat
  caching :: bool
  inputs_cached :: matrix
  kernel_activations_cached :: matrix

text \<open>
  The errors that the specification names. No operation of the class throws or returns an
  error code; an operation is modelled with the result type \<open>error + 'a\<close> so that this
  can be stated.
\<close>

datatype error = SizeMismatch | UnsupportedOperation

subsection \<open>Construction\<close>

text \<open>The conditions that \<^verbatim>\<open>checkDimensions\<close> asserts (compiled out), and what it computes.\<close>

definition checkDimensions_asserts :: "ModelParametersUnified \<Rightarrow> bool" where
  "checkDimensions_asserts m =
     (rows (centers m) = rows (widths m) \<and>
      cols (centers m) = cols (widths m) \<and>
      rows (centers m) = rows (slopes m) \<and>
      cols (centers m) = cols (slopes m) \<and>
      rows (centers m) = length (offsets m) \<and>
      rows (centers m) = length (priors m))"

definition checkDimensions :: "ModelParametersUnified \<Rightarrow> ModelParametersUnified" where
  "checkDimensions m =
     m\<lparr>all_values_vector_size :=
         0 + rows (centers m) * cols (centers m)
           + rows (widths m) * cols (widths m)
           + length (offsets m) * 1
           + rows (slopes m) * cols (slopes m)
           + length (priors m) * 1\<rparr>"

text \<open>
  The three constructors. None of them initialises \<^verbatim>\<open>caching_\<close>: its first value
  \<open>caching0\<close> is a parameter. The two cached matrices are default-constructed.
\<close>

definition ModelParametersUnified_weights ::
  "matrix \<Rightarrow> matrix \<Rightarrow> double list \<Rightarrow> bool \<Rightarrow> bool \<Rightarrow> bool \<Rightarrow> ModelParametersUnified" where
  "ModelParametersUnified_weights cen wid weights nbf pivot caching0 =
     checkDimensions
       \<lparr>centers = cen, widths = wid,
        slopes = MatrixXd_Zero (rows cen) (cols cen),
        offsets = weights,
        priors = VectorXd_Ones (rows cen) (cols cen),
        normalized_basis_functions = nbf,
        lines_pivot_at_max_activation = pivot,
        slopes_as_angles = False,
        all_values_vector_size = 0,
        caching = caching0,
        inputs_cached = empty_matrix,
        kernel_activations_cached = empty_matrix\<rparr>"

definition ModelParametersUnified_slopes ::
  "matrix \<Rightarrow> matrix \<Rightarrow> matrix \<Rightarrow> double list \<Rightarrow> bool \<Rightarrow> bool \<Rightarrow> bool
     \<Rightarrow> ModelParametersUnified" where
  "ModelParametersUnified_slopes cen wid slo offs nbf pivot caching0 =
     checkDimensions
       \<lparr>centers = cen, widths = wid,
        slopes = slo,
        offsets = offs,
        priors = VectorXd_Ones (rows cen) (cols cen),
        normalized_basis_functions = nbf,
        lines_pivot_at_max_activation = pivot,
        slopes_as_angles = False,
        all_values_vector_size = 0,
        caching = caching0,
        inputs_cached = empty_matrix,
        kernel_activations_cached = empty_matrix\<rparr>"


definition clone :: "ModelParametersUnified \<Rightarrow> bool \<Rightarrow> ModelParametersUnified" where
  "clone m caching0 =
     ModelParametersUnified_slopes (centers m) (widths m) (slopes m) (offsets m)
       (normalized_basis_functions m) (lines_pivot_at_max_activation m) caching0"

subsection \<open>The pivot of the lines\<close>

text \<open>The vector \<^verbatim>\<open>ac\<close> of both \<^verbatim>\<open>set_lines_pivot_at_max_activation\<close> and \<^verbatim>\<open>getLines\<close>.\<close>

definition slopes_times_centers :: "ModelParametersUnified \<Rightarrow> double list" where
  "slopes_times_centers m =
     map (\<lambda>i_line. dot (row (slopes m) i_line) (row (centers m) i_line))
       [0..<rows (centers m)]"


text \<open>
  \<^verbatim>\<open>set_slopes_as_angles\<close> returns nothing and throws nothing. The line it writes to the
  standard error stream is given without its \<^verbatim>\<open>__FILE__:__LINE__:\<close> prefix.
\<close>

definition set_slopes_as_angles ::
  "ModelParametersUnified \<Rightarrow> bool \<Rightarrow> error + (string list \<times> ModelParametersUnified)" where
  "set_slopes_as_angles m flag =
     (let m1 = m\<lparr>slopes_as_angles := flag\<rparr>;
          cerr = [''Not implemented yet!!!''];
          m2 = m1\<lparr>slopes_as_angles := False\<rparr>
      in Inr (cerr, m2))"


subsection \<open>Kernel activations\<close>













text \<open>
  Modelled from the spec: \<^verbatim>\<open>clearCache\<close>, defined in the header
  \<^verbatim>\<open>ModelParametersUnified.hpp\<close>, which is not among the sources. It discards the memo:
  both cached matrices become empty, which is the state that the comment in the caching
  \<^verbatim>\<open>kernelActivations\<close> calls "inputs_cached is empty and need to be initialized".
\<close>

definition clearCache :: "ModelParametersUnified \<Rightarrow> ModelParametersUnified" where
  "clearCache m = m\<lparr>inputs_cached := empty_matrix, kernel_activations_cached := empty_matrix\<rparr>"


subsection \<open>The flat parameter vector\<close>

text \<open>
  Modelled from the spec: \<^verbatim>\<open>getParameterVectorAllSize\<close>, defined in the same missing
  header; it returns the size that \<^verbatim>\<open>checkDimensions\<close> computed.
\<close>

definition getParameterVectorAllSize :: "ModelParametersUnified \<Rightarrow> nat" where
  "getParameterVectorAllSize m = all_values_vector_size m"

definition getSelectableParameters :: "string set" where
  "getSelectableParameters =
     insert ''priors'' (insert ''slopes'' (insert ''offsets'' (insert ''widths''
       (insert ''centers'' {}))))"

text \<open>
  \<^verbatim>\<open>getParameterVectorMask\<close>: the mask, and the value of \<^verbatim>\<open>offset\<close> that the last assertion
  compares with the size.
\<close>

definition fill_segment :: "int list \<Rightarrow> nat \<Rightarrow> nat \<Rightarrow> int \<Rightarrow> int list" where
  "fill_segment v off n x = set_segment v off n (replicate n x)"

definition getParameterVectorMask_run ::
  "ModelParametersUnified \<Rightarrow> string set \<Rightarrow> int list \<times> nat" where
  "getParameterVectorMask_run m selected_values_labels =
     (let mask0 = replicate (getParameterVectorAllSize m) 0;
          offset0 = 0;
          size1 = rows (centers m) * cols (centers m);
          mask1 = (if ''centers'' \<in> selected_values_labels
                   then fill_segment mask0 offset0 size1 1 else mask0);
          offset1 = offset0 + size1;
          size2 = rows (widths m) * cols (widths m);
          mask2 = (if ''widths'' \<in> selected_values_labels
                   then fill_segment mask1 offset1 size2 2 else mask1);
          offset2 = offset1 + size2;
          size3 = length (offsets m) * 1;
          mask3 = (if ''offsets'' \<in> selected_values_labels
                   then fill_segment mask2 offset2 size3 3 else mask2);
          offset3 = offset2 + size3;
          size4 = rows (slopes m) * cols (slopes m);
          mask4 = (if ''slopes'' \<in> selected_values_labels
                   then fill_segment mask3 offset3 size4 4 else mask3);
          offset4 = offset3 + size4
      in (mask4, offset4))"

definition getParameterVectorMask :: "ModelParametersUnified \<Rightarrow> string set \<Rightarrow> int list" where
  "getParameterVectorMask m selected_values_labels =
     fst (getParameterVectorMask_run m selected_values_labels)"

definition getParameterVectorMask_assert :: "ModelParametersUnified \<Rightarrow> string set \<Rightarrow> bool" where
  "getParameterVectorMask_assert m selected_values_labels =
     (snd (getParameterVectorMask_run m selected_values_labels) = getParameterVectorAllSize m)"

text \<open>
  \<^verbatim>\<open>getParameterVectorAll\<close>. Each of its three loops writes the columns of a matrix one
  after the other; the loop over the slopes converts a column first when the slopes are
  angles.
\<close>

definition write_columns ::
  "(double list \<Rightarrow> double list) \<Rightarrow> matrix \<Rightarrow> double list \<times> nat \<Rightarrow> double list \<times> nat" where
  "write_columns conv M =
     fold (\<lambda>i_dim (values, offset).
             (set_segment values offset (rows M) (conv (col M i_dim)), offset + rows M))
       [0..<cols M]"

definition getParameterVectorAll_run ::
  "(nat \<Rightarrow> double) \<Rightarrow> ModelParametersUnified \<Rightarrow> double list \<times> nat" where
  "getParameterVectorAll_run junk m =
     (let values0 = resize_vector junk (getParameterVectorAllSize m);
          (values1, offset1) = write_columns (\<lambda>v. v) (centers m) (values0, 0);
          (values2, offset2) = write_columns (\<lambda>v. v) (widths m) (values1, offset1);
          values3 = set_segment values2 offset2 (length (offsets m)) (offsets m);
          offset3 = offset2 + length (offsets m)
      in write_columns (\<lambda>cur_slopes. if slopes_as_angles m then map datan2_1 cur_slopes
                                      else cur_slopes)
           (slopes m) (values3, offset3))"


definition getParameterVectorAll_assert :: "(nat \<Rightarrow> double) \<Rightarrow> ModelParametersUnified \<Rightarrow> bool" where
  "getParameterVectorAll_assert junk m =
     (snd (getParameterVectorAll_run junk m) = getParameterVectorAllSize m)"

text \<open>
  \<^verbatim>\<open>setParameterVectorAll\<close>: its three loops, each from the object and the offset so far to
  the object and the offset afterwards.
\<close>

definition read_centers ::
  "double list \<Rightarrow> nat \<Rightarrow> nat \<Rightarrow> ModelParametersUnified \<times> nat \<Rightarrow> ModelParametersUnified \<times> nat" where
  "read_centers values seg_size n_dims =
     fold (\<lambda>i_dim (m, offset).
             let m1 = (if \<not> all_equal (col (centers m) i_dim) (segment values offset seg_size)
                       then clearCache m else m)
             in (m1\<lparr>centers := set_col (centers m1) i_dim (segment values offset seg_size)\<rparr>,
                 offset + seg_size))
       [0..<n_dims]"

definition read_widths ::
  "double list \<Rightarrow> nat \<Rightarrow> nat \<Rightarrow> ModelParametersUnified \<times> nat \<Rightarrow> ModelParametersUnified \<times> nat" where
  "read_widths values seg_size n_dims =
     fold (\<lambda>i_dim (m, offset).
             let m1 = (if \<not> all_equal (col (widths m) i_dim) (segment values offset seg_size)
                       then clearCache m else m)
             in (m1\<lparr>widths := set_col (widths m1) i_dim (segment values offset seg_size)\<rparr>,
                 offset + seg_size))
       [0..<n_dims]"

definition read_slopes ::
  "double list \<Rightarrow> nat \<Rightarrow> nat \<Rightarrow> ModelParametersUnified \<times> nat \<Rightarrow> ModelParametersUnified \<times> nat" where
  "read_slopes values seg_size n_dims =
     fold (\<lambda>i_dim (m, offset).
             (m\<lparr>slopes := set_col (slopes m) i_dim (segment values offset seg_size)\<rparr>,
              offset + seg_size))
       [0..<n_dims]"

definition setParameterVectorAll_run ::
  "ModelParametersUnified \<Rightarrow> double list \<Rightarrow> ModelParametersUnified \<times> nat" where
  "setParameterVectorAll_run m values =
     (let seg_size = rows (centers m);
          n_dims = cols (centers m);
          (m1, offset1) = read_centers values seg_size n_dims (m, 0);
          (m2, offset2) = read_widths values seg_size n_dims (m1, offset1);
          m3 = m2\<lparr>offsets := segment values offset2 seg_size\<rparr>;
          offset3 = offset2 + seg_size
      in read_slopes values seg_size n_dims (m3, offset3))"

text \<open>
  The line written to the standard error stream is given without its
  \<^verbatim>\<open>__FILE__:__LINE__:\<close> prefix. The function returns nothing and throws nothing.
\<close>

definition setParameterVectorAll ::
  "ModelParametersUnified \<Rightarrow> double list \<Rightarrow> error + (string list \<times> ModelParametersUnified)" where
  "setParameterVectorAll m values =
     (if all_values_vector_size m \<noteq> length values
      then Inr ([''values is of wrong size.''], m)
      else Inr ([], fst (setParameterVectorAll_run m values)))"

section \<open>Valid objects\<close>

text \<open>
  An object is valid when its three matrices are well formed, the conditions asserted by
  \<^verbatim>\<open>checkDimensions\<close> hold, and the size is the one \<^verbatim>\<open>checkDimensions\<close> computes. Every
  constructor ends with \<^verbatim>\<open>checkDimensions\<close> and sets \<^verbatim>\<open>slopes_as_angles_\<close> to false.
\<close>

definition valid_model :: "ModelParametersUnified \<Rightarrow> bool" where
  "valid_model m =
     (wf_matrix (centers m) \<and> wf_matrix (widths m) \<and> wf_matrix (slopes m) \<and>
      checkDimensions_asserts m \<and> checkDimensions m = m)"



text \<open>
  The object of the scenario of the specification: three basis functions in one dimension,
  centers 30, 40 and 50, widths 5, slopes 1, offsets 0, lines not pivoted; caching is on.
\<close>

definition example_model :: ModelParametersUnified where
  "example_model =
     ModelParametersUnified_slopes
       \<lparr>rows = 3, columns = [[Finite 30, Finite 40, Finite 50]]\<rparr>
       \<lparr>rows = 3, columns = [[Finite 5, Finite 5, Finite 5]]\<rparr>
       \<lparr>rows = 3, columns = [[Finite 1, Finite 1, Finite 1]]\<rparr>
       [Finite 0, Finite 0, Finite 0] False False True"
















section \<open>Sequences of calls\<close>









section \<open>Basic facts\<close>





lemma write_columns_snd:
  "snd (write_columns conv M p) = snd p + rows M * cols M"
proof -
  have "snd (fold (\<lambda>i_dim (values, offset).
             (set_segment values offset (rows M) (conv (col M i_dim)), offset + rows M)) xs p)
        = snd p + rows M * length xs" for xs
    by (induction xs arbitrary: p) (auto simp: case_prod_beta)
  from this[of "[0..<cols M]"] show ?thesis by (simp add: write_columns_def)
qed













lemma example_model_eq:
  "example_model =
     \<lparr>centers = \<lparr>rows = 3, columns = [[Finite 30, Finite 40, Finite 50]]\<rparr>,
      widths = \<lparr>rows = 3, columns = [[Finite 5, Finite 5, Finite 5]]\<rparr>,
      slopes = \<lparr>rows = 3, columns = [[Finite 1, Finite 1, Finite 1]]\<rparr>,
      offsets = [Finite 0, Finite 0, Finite 0],
      priors = [Finite 1, Finite 1, Finite 1],
      normalized_basis_functions = False,
      lines_pivot_at_max_activation = False,
      slopes_as_angles = False,
      all_values_vector_size = 15,
      caching = True,
      inputs_cached = empty_matrix,
      kernel_activations_cached = empty_matrix\<rparr>"
  by (simp add: example_model_def ModelParametersUnified_slopes_def checkDimensions_def
      VectorXd_Ones_def cols_def eval_nat_numeral)

lemma example_model_valid: "valid_model example_model"
  by (simp add: example_model_eq valid_model_def wf_matrix_def checkDimensions_asserts_def
      checkDimensions_def cols_def)

lemma fill_segment_app:
  "length A = off \<Longrightarrow> fill_segment (A @ replicate n y @ B) off n x = A @ replicate n x @ B"
  by (simp add: fill_segment_def set_segment_def)

lemma mask_structure:
  assumes "valid_model m"
  shows "getParameterVectorMask_run m S =
     (replicate (rows (centers m) * cols (centers m)) (if ''centers'' \<in> S then 1 else 0) @
      replicate (rows (centers m) * cols (centers m)) (if ''widths'' \<in> S then 2 else 0) @
      replicate (rows (centers m)) (if ''offsets'' \<in> S then 3 else 0) @
      replicate (rows (centers m) * cols (centers m)) (if ''slopes'' \<in> S then 4 else 0) @
      replicate (rows (centers m)) 0,
      3 * (rows (centers m) * cols (centers m)) + rows (centers m))"
proof -
  define n where "n = rows (centers m)"
  define N where "N = rows (centers m) * cols (centers m)"
  have sh: "rows (widths m) = rows (centers m)" "cols (widths m) = cols (centers m)"
       "rows (slopes m) = rows (centers m)" "cols (slopes m) = cols (centers m)"
       "length (offsets m) = n" "length (priors m) = n"
    using assms(1) by (auto simp: valid_model_def checkDimensions_asserts_def n_def)
  have "all_values_vector_size (checkDimensions m) = all_values_vector_size m"
    using assms(1) by (simp add: valid_model_def)
  then have sz: "getParameterVectorAllSize m = N + (N + (n + (N + n)))"
    using sh by (simp add: getParameterVectorAllSize_def checkDimensions_def N_def n_def)
  define c1 :: int where "c1 = (if ''centers'' \<in> S then 1 else 0)"
  define c2 :: int where "c2 = (if ''widths'' \<in> S then 2 else 0)"
  define c3 :: int where "c3 = (if ''offsets'' \<in> S then 3 else 0)"
  define c4 :: int where "c4 = (if ''slopes'' \<in> S then 4 else 0)"
  define Z :: "int list" where "Z = replicate n 0"
  have m0: "replicate (getParameterVectorAllSize m) (0::int)
            = [] @ replicate N 0 @ (replicate N 0 @ replicate n 0 @ replicate N 0 @ Z)"
    by (simp add: sz replicate_add Z_def)
  have 1: "(if ''centers'' \<in> S then fill_segment (replicate (getParameterVectorAllSize m) 0) 0 N 1
           else replicate (getParameterVectorAllSize m) 0)
           = replicate N c1 @ (replicate N 0 @ replicate n 0 @ replicate N 0 @ Z)"
    unfolding m0 c1_def
    using fill_segment_app[of "[]" 0 N 0 "replicate N 0 @ replicate n 0 @ replicate N 0 @ Z" 1]
    by simp
  have 2: "(if ''widths'' \<in> S
            then fill_segment (replicate N c1 @ replicate N 0 @ (replicate n 0 @ replicate N 0 @ Z)) N N 2
            else replicate N c1 @ replicate N 0 @ (replicate n 0 @ replicate N 0 @ Z))
           = replicate N c1 @ replicate N c2 @ (replicate n 0 @ replicate N 0 @ Z)"
    using fill_segment_app[of "replicate N c1" N N 0 "replicate n 0 @ replicate N 0 @ Z" 2]
    by (simp add: c2_def)
  have 3: "(if ''offsets'' \<in> S
            then fill_segment (replicate N c1 @ replicate N c2 @ replicate n 0 @ replicate N 0 @ Z) (N + N) n 3
            else replicate N c1 @ replicate N c2 @ replicate n 0 @ replicate N 0 @ Z)
           = replicate N c1 @ replicate N c2 @ replicate n c3 @ replicate N 0 @ Z"
    using fill_segment_app[of "replicate N c1 @ replicate N c2" "N + N" n 0 "replicate N 0 @ Z" 3]
    by (simp add: c3_def)
  have 4: "(if ''slopes'' \<in> S
            then fill_segment (replicate N c1 @ replicate N c2 @ replicate n c3 @ replicate N 0 @ Z) (N + N + n) N 4
            else replicate N c1 @ replicate N c2 @ replicate n c3 @ replicate N 0 @ Z)
           = replicate N c1 @ replicate N c2 @ replicate n c3 @ replicate N c4 @ Z"
    using fill_segment_app[of "replicate N c1 @ replicate N c2 @ replicate n c3" "N + N + n" N 0 Z 4]
    by (simp add: c4_def)
  have sh': "rows (widths m) * cols (widths m) = N" "rows (slopes m) * cols (slopes m) = N"
    "rows (centers m) * cols (centers m) = N"
    using sh by (simp_all add: N_def)
  have "getParameterVectorMask_run m S
        = (replicate N c1 @ replicate N c2 @ replicate n c3 @ replicate N c4 @ Z, N + N + n + N)"
    unfolding getParameterVectorMask_run_def Let_def sh' sh(5)
    by (simp add: 1 2 3 4 cong: if_cong split del: if_split)
  then show ?thesis
    by (simp add: N_def n_def c1_def c2_def c3_def c4_def Z_def)
qed


section \<open>Cloning\<close>

text \<open>
  Claim C10: \<^verbatim>\<open>clone\<close> does not preserve the priors. The clone has the centers, widths,
  slopes, offsets, normalization flag and pivot flag of the original, and its priors are
  all ones, one per basis function, whatever the priors of the original are.
\<close>

theorem clone_resets_priors:
  "centers (clone m caching0) = centers m \<and>
   widths (clone m caching0) = widths m \<and>
   slopes (clone m caching0) = slopes m \<and>
   offsets (clone m caching0) = offsets m \<and>
   normalized_basis_functions (clone m caching0) = normalized_basis_functions m \<and>
   lines_pivot_at_max_activation (clone m caching0) = lines_pivot_at_max_activation m \<and>
   priors (clone m caching0) = replicate (rows (centers m)) (Finite 1)"
  by (simp add: clone_def ModelParametersUnified_slopes_def checkDimensions_def
      VectorXd_Ones_def)

section \<open>Selectable labels and the mask\<close>

text \<open>
  Claim C9: the label "priors" is selectable but never maskable. The selectable labels are
  centers, widths, offsets, slopes and priors; the mask of a valid object tags the segment
  of the centers with 1, of the widths with 2, of the offsets with 3 and of the slopes
  with 4, each only when its label is selected, and every other entry is 0; for the
  selection that holds only "priors" the mask of any object is all zeros.
\<close>

theorem priors_selectable_not_maskable:
  "getSelectableParameters = {''centers'', ''widths'', ''offsets'', ''slopes'', ''priors''} \<and>
   getParameterVectorMask m {''priors''} = replicate (getParameterVectorAllSize m) 0 \<and>
   (valid_model m \<longrightarrow>
    getParameterVectorMask m S =
      replicate (rows (centers m) * cols (centers m)) (if ''centers'' \<in> S then 1 else 0) @
      replicate (rows (centers m) * cols (centers m)) (if ''widths'' \<in> S then 2 else 0) @
      replicate (rows (centers m)) (if ''offsets'' \<in> S then 3 else 0) @
      replicate (rows (centers m) * cols (centers m)) (if ''slopes'' \<in> S then 4 else 0) @
      replicate (rows (centers m)) 0)"
proof (intro conjI impI)
  show "getSelectableParameters = {''centers'', ''widths'', ''offsets'', ''slopes'', ''priors''}"
    by (auto simp: getSelectableParameters_def)
  show "getParameterVectorMask m {''priors''} = replicate (getParameterVectorAllSize m) 0"
    by (simp add: getParameterVectorMask_def getParameterVectorMask_run_def Let_def)
next
  assume "valid_model m"
  then show "getParameterVectorMask m S =
      replicate (rows (centers m) * cols (centers m)) (if ''centers'' \<in> S then 1 else 0) @
      replicate (rows (centers m) * cols (centers m)) (if ''widths'' \<in> S then 2 else 0) @
      replicate (rows (centers m)) (if ''offsets'' \<in> S then 3 else 0) @
      replicate (rows (centers m) * cols (centers m)) (if ''slopes'' \<in> S then 4 else 0) @
      replicate (rows (centers m)) 0"
    by (simp add: getParameterVectorMask_def mask_structure)
qed

text \<open>
  The example object is valid; with the centers and the slopes selected its mask is
  1 1 1 0 0 0 0 0 0 4 4 4 0 0 0, and with the priors selected it is fifteen zeros.
\<close>

theorem priors_selectable_not_maskable_witness:
  "valid_model example_model \<and>
   getParameterVectorMask example_model {''priors''} = replicate 15 0 \<and>
   getParameterVectorMask example_model {''centers'', ''slopes''} =
     [1, 1, 1, 0, 0, 0, 0, 0, 0, 4, 4, 4, 0, 0, 0]"
proof -
  have sh: "rows (centers example_model) = 3" "cols (centers example_model) = 1"
    "getParameterVectorAllSize example_model = 15"
    by (simp_all add: example_model_eq cols_def getParameterVectorAllSize_def)
  show ?thesis
    using priors_selectable_not_maskable[of example_model "{''centers'', ''slopes''}"]
      example_model_valid
    by (simp add: sh eval_nat_numeral)
qed

section \<open>The size of the flat vector\<close>

text \<open>
  What \<^verbatim>\<open>getParameterVectorAll\<close> and \<^verbatim>\<open>getParameterVectorMask\<close> have written when they reach
  their last assertion falls short of the size by the number of priors.
\<close>

lemma flatten_offset_short:
  assumes "valid_model m"
  shows "snd (getParameterVectorAll_run junk m) + length (priors m) = getParameterVectorAllSize m"
    and "snd (getParameterVectorMask_run m S) + length (priors m) = getParameterVectorAllSize m"
proof -
  have sh: "rows (widths m) = rows (centers m)" "cols (widths m) = cols (centers m)"
       "rows (slopes m) = rows (centers m)" "cols (slopes m) = cols (centers m)"
       "length (offsets m) = rows (centers m)" "length (priors m) = rows (centers m)"
    using assms(1) by (auto simp: valid_model_def checkDimensions_asserts_def)
  have "all_values_vector_size (checkDimensions m) = all_values_vector_size m"
    using assms(1) by (simp add: valid_model_def)
  then have sz: "getParameterVectorAllSize m
                 = 3 * (rows (centers m) * cols (centers m)) + 2 * rows (centers m)"
    using sh by (simp add: getParameterVectorAllSize_def checkDimensions_def)
  show "snd (getParameterVectorAll_run junk m) + length (priors m) = getParameterVectorAllSize m"
    unfolding getParameterVectorAll_run_def Let_def
    by (simp add: case_prod_beta write_columns_snd sh sz)
  show "snd (getParameterVectorMask_run m S) + length (priors m) = getParameterVectorAllSize m"
    by (simp add: mask_structure[OF assms] sh sz)
qed

text \<open>
  Claim C7: the number of elements that \<^verbatim>\<open>getParameterVectorAll\<close> writes equals
  \<^verbatim>\<open>getParameterVectorAllSize\<close>, so that the last assertion of \<^verbatim>\<open>getParameterVectorAll\<close>
  and of \<^verbatim>\<open>getParameterVectorMask\<close> holds. The code does not do this: on the example
  object both functions end at offset 12 while the size is 15 (the three priors are
  counted and not written), and both assertions are false.
\<close>

theorem flatten_size_assertion_fails:
  "snd (getParameterVectorAll_run (\<lambda>k. NaN) example_model) = 12 \<and>
   snd (getParameterVectorMask_run example_model getSelectableParameters) = 12 \<and>
   getParameterVectorAllSize example_model = 15 \<and>
   \<not> getParameterVectorAll_assert (\<lambda>k. NaN) example_model \<and>
   \<not> getParameterVectorMask_assert example_model getSelectableParameters"
proof -
  have sz: "getParameterVectorAllSize example_model = 15" "length (priors example_model) = 3"
    by (simp_all add: example_model_eq getParameterVectorAllSize_def)
  have 1: "snd (getParameterVectorAll_run (\<lambda>k. NaN) example_model) = 12"
    using flatten_offset_short(1)[OF example_model_valid, of "\<lambda>k. NaN"] by (simp add: sz)
  have 2: "snd (getParameterVectorMask_run example_model getSelectableParameters) = 12"
    using flatten_offset_short(2)[OF example_model_valid, of getSelectableParameters]
    by (simp add: sz)
  show ?thesis
    by (simp add: 1 2 sz getParameterVectorAll_assert_def getParameterVectorMask_assert_def)
qed

section \<open>Writing the flat vector\<close>

text \<open>
  Claim C2, as the code has it: \<^verbatim>\<open>setParameterVectorAll\<close> with a vector whose length differs
  from the size writes the line "values is of wrong size." to the standard error stream and
  returns normally, without any error result; every parameter group, every flag and the
  activation cache are unchanged.
\<close>

theorem setParameterVectorAll_wrong_size:
  "all_values_vector_size m \<noteq> length v \<Longrightarrow>
   setParameterVectorAll m v = Inr ([''values is of wrong size.''], m)"
  by (simp add: setParameterVectorAll_def)

theorem setParameterVectorAll_wrong_size_witness:
  "all_values_vector_size example_model \<noteq> length [Finite 1, Finite 2] \<and>
   setParameterVectorAll example_model [Finite 1, Finite 2]
     = Inr ([''values is of wrong size.''], example_model)"
proof -
  have h: "all_values_vector_size example_model \<noteq> length [Finite 1, Finite 2]"
    by (simp add: example_model_eq)
  show ?thesis using setParameterVectorAll_wrong_size[OF h] h by simp
qed

text \<open>
  The claim as it is stated asks for a SizeMismatch error result. A vector of length 2 for
  the example object, whose size is 15, does not give one.
\<close>

theorem setParameterVectorAll_wrong_size_counterexample:
  "all_values_vector_size example_model \<noteq> length [Finite 1, Finite 2] \<and>
   setParameterVectorAll example_model [Finite 1, Finite 2] \<noteq> Inl SizeMismatch"
  by (simp add: setParameterVectorAll_def example_model_eq)



section \<open>Slopes as angles\<close>

text \<open>
  Claim C8, as the code has it: \<^verbatim>\<open>set_slopes_as_angles\<close>, whatever the flag it is called
  with, writes the line "Not implemented yet!!!" to the standard error stream, returns
  normally without any error result, and leaves the flag false and everything else as it
  was.
\<close>

theorem set_slopes_as_angles_not_implemented:
  "set_slopes_as_angles m flag = Inr ([''Not implemented yet!!!''], m\<lparr>slopes_as_angles := False\<rparr>)"
  by (simp add: set_slopes_as_angles_def)

text \<open>
  The claim as it is stated asks for an UnsupportedOperation error. Asking the example
  object for angles does not give one: the call returns, and the flag is false afterwards.
\<close>

theorem set_slopes_as_angles_counterexample:
  "set_slopes_as_angles example_model True \<noteq> Inl UnsupportedOperation \<and>
   set_slopes_as_angles example_model True
     = Inr ([''Not implemented yet!!!''], example_model)"
  by (simp add: set_slopes_as_angles_def example_model_eq)

section \<open>Finite values\<close>















lemma slopes_times_centers_offsets [simp]:
  "slopes_times_centers (m\<lparr>offsets := v\<rparr>) = slopes_times_centers m"
  "slopes_times_centers (m\<lparr>lines_pivot_at_max_activation := b\<rparr>) = slopes_times_centers m"
  by (simp_all add: slopes_times_centers_def)






section \<open>Toggling the pivot\<close>



section \<open>The loops of the kernel activations\<close>


















section \<open>Normalized activations\<close>






























section \<open>The cache of the kernel activations\<close>






lemma checkDimensions_fix:
  "checkDimensions m = m \<longleftrightarrow>
   all_values_vector_size m =
     rows (centers m) * cols (centers m) + rows (widths m) * cols (widths m)
     + length (offsets m) + rows (slopes m) * cols (slopes m) + length (priors m)"
  by (cases m) (auto simp: checkDimensions_def)






lemma valid_model_cache [simp]:
  "valid_model (m\<lparr>inputs_cached := x, kernel_activations_cached := K\<rparr>) = valid_model m"
  by (simp add: valid_model_def checkDimensions_asserts_def checkDimensions_fix)











lemma upt_1: "[0..<1] = [0]"
  by simp





end
